theory Spec2Isabelle
  imports Main "HOL-Library.Sublist"
begin

section \<open>Errors\<close>

text \<open>
  Go's \<open>error\<close> interface, restricted to the dynamic types the modelled functions
  distinguish. \<open>ShowClusterDefault\<close> and \<open>TerminateClusterDefault\<close> are the
  generated Kubernikus client's default responses; they carry \<open>Payload.Message\<close> and
  the text their \<open>Error()\<close> method renders. \<open>ErrUnexpectedResponseCode\<close> is
  gophercloud's HTTP error with the status code actually received. \<open>ErrorString\<close>
  is what \<open>fmt.Errorf\<close> without a wrapping verb returns.
\<close>

datatype error =
    ShowClusterDefault string string
  | TerminateClusterDefault string string
  | ErrUnexpectedResponseCode int string
  | ErrorString string

fun Error :: "error \<Rightarrow> string" where
  "Error (ShowClusterDefault m txt) = txt"
| "Error (TerminateClusterDefault m txt) = txt"
| "Error (ErrUnexpectedResponseCode c txt) = txt"
| "Error (ErrorString txt) = txt"

text \<open>\<open>gophercloud.ResponseCodeIs(err, status)\<close>.\<close>

fun ResponseCodeIs :: "error \<Rightarrow> int \<Rightarrow> bool" where
  "ResponseCodeIs (ErrUnexpectedResponseCode actual txt) status = (actual = status)"
| "ResponseCodeIs e status = False"

definition StatusNotFound :: int where
  "StatusNotFound = 404"

text \<open>
  \<open>kubernikusHandleErrorV1\<close>: a type switch on the error; a nil error falls through
  both cases and is returned as it is.
\<close>

fun kubernikusHandleErrorV1 :: "string \<Rightarrow> error option \<Rightarrow> error option" where
  "kubernikusHandleErrorV1 msg None = None"
| "kubernikusHandleErrorV1 msg (Some (TerminateClusterDefault m txt)) =
     Some (ErrorString (msg @ '': '' @ m))"
| "kubernikusHandleErrorV1 msg (Some err) = Some (ErrorString (msg @ '': '' @ Error err))"

section \<open>String helpers\<close>

text \<open>\<open>strings.Contains(s, substr)\<close>: \<open>substr\<close> occurs in \<open>s\<close> as a contiguous run.\<close>

fun strings_Contains :: "string \<Rightarrow> string \<Rightarrow> bool" where
  "strings_Contains [] substr = (substr = [])"
| "strings_Contains (c # s) substr = (prefix substr (c # s) \<or> strings_Contains s substr)"

text \<open>
  \<open>strSliceContains\<close> (util.go): the needle is lowercased once, then compared with
  each lowercased element in turn. \<open>strings.ToLower\<close> belongs to Go's standard
  library, and folds the letters of every script: the functions that reach it take the
  fold as the parameter \<open>toLower\<close>, about which nothing is assumed.
\<close>

fun strSliceContains :: "(string \<Rightarrow> string) \<Rightarrow> string list \<Rightarrow> string \<Rightarrow> bool" where
  "strSliceContains toLower [] str = False"
| "strSliceContains toLower (s # sl) str =
     (if toLower s = toLower str then True else strSliceContains toLower sl str)"

text \<open>Decimal rendering of a length, as the verb \<open>%d\<close> prints it.\<close>

definition digitChar :: "nat \<Rightarrow> char" where
  "digitChar d = ''0123456789'' ! d"

fun itoa :: "nat \<Rightarrow> string" where
  "itoa n = (if n < 10 then [digitChar n] else itoa (n div 10) @ [digitChar (n mod 10)])"

declare itoa.simps [simp del]

section \<open>Node pools\<close>

text \<open>
  \<open>models.NodePool\<close> and \<open>models.NodePoolConfig\<close> of the Kubernikus API, with the
  fields the provider reads and writes. A nil slice and a nil pointer are \<open>None\<close>:
  \<open>reflect.DeepEqual\<close> tells a nil slice from an empty one and follows pointers, so
  equality of these records is deep equality. \<open>int64\<close> values are integers; no
  arithmetic is done on them.
\<close>

record NodePoolConfig =
  AllowReboot :: "bool option"
  AllowReplace :: "bool option"

record NodePool =
  AvailabilityZone :: string
  Config :: "NodePoolConfig option"
  CustomRootDiskSize :: int
  Flavor :: string
  Image :: string
  Labels :: "string list option"
  Name :: string
  Size :: int
  Taints :: "string list option"

text \<open>
  The raw configuration value handed to \<open>kubernikusExpandNodePoolsV1\<close>: nil, a value
  that is not a list, or a list whose items are maps or something else. A map holds a
  key or not (\<open>None\<close>); a value present under a key has the type the resource schema
  declares for it, which is what the unchecked type assertions of the source rely on.
  An element of a string list that is not a string is \<open>None\<close>, and so is a config
  flag that is absent or not a boolean.
\<close>

datatype raw_config = ConfigNotAMap | ConfigMap "bool option" "bool option"

record raw_pool =
  key_name :: "string option"
  key_flavor :: "string option"
  key_image :: "string option"
  key_size :: "int option"
  key_availability_zone :: "string option"
  key_taints :: "string option list option"
  key_labels :: "string option list option"
  key_custom_root_disk_size :: "int option"
  key_config :: "raw_config list option"

datatype raw_item = NotAMap | PoolMap raw_pool

datatype raw_pools = RawNil | NotAList | RawList "raw_item list"

text \<open>\<open>expandToStringSlice\<close>: a slot whose value is not a string keeps the zero value.\<close>

definition expandToStringSlice :: "string option list \<Rightarrow> string list" where
  "expandToStringSlice v = map (\<lambda>val. case val of Some strVal \<Rightarrow> strVal | None \<Rightarrow> []) v"

text \<open>\<open>expandToNodePoolConfig\<close>: later items overwrite the flags set by earlier ones.\<close>

fun configLoop :: "NodePoolConfig \<Rightarrow> raw_config list \<Rightarrow> NodePoolConfig" where
  "configLoop c [] = c"
| "configLoop c (ConfigNotAMap # v) = configLoop c v"
| "configLoop c (ConfigMap reboot replace # v) =
     configLoop
       (let c1 = (case reboot of Some b \<Rightarrow> c\<lparr>AllowReboot := Some b\<rparr> | None \<Rightarrow> c)
        in (case replace of Some b \<Rightarrow> c1\<lparr>AllowReplace := Some b\<rparr> | None \<Rightarrow> c1)) v"

definition expandToNodePoolConfig :: "raw_config list \<Rightarrow> NodePoolConfig" where
  "expandToNodePoolConfig v = configLoop \<lparr>AllowReboot = None, AllowReplace = None\<rparr> v"

text \<open>The body of the loop of \<open>kubernikusExpandNodePoolsV1\<close> but for the name check.\<close>

definition expandPool :: "raw_pool \<Rightarrow> NodePool" where
  "expandPool v =
     \<lparr>AvailabilityZone = (case key_availability_zone v of Some s \<Rightarrow> s | None \<Rightarrow> []),
      Config = map_option expandToNodePoolConfig (key_config v),
      CustomRootDiskSize = (case key_custom_root_disk_size v of Some n \<Rightarrow> n | None \<Rightarrow> 0),
      Flavor = (case key_flavor v of Some s \<Rightarrow> s | None \<Rightarrow> []),
      Image = (case key_image v of Some s \<Rightarrow> s | None \<Rightarrow> []),
      Labels = map_option expandToStringSlice (key_labels v),
      Name = (case key_name v of Some s \<Rightarrow> s | None \<Rightarrow> []),
      Size = (case key_size v of Some n \<Rightarrow> n | None \<Rightarrow> 0),
      Taints = map_option expandToStringSlice (key_taints v)\<rparr>"

text \<open>
  The loop over the raw items, with the two accumulators of the source: the names seen
  so far and the pools expanded so far. A duplicate name returns at once.
\<close>

fun expandLoop ::
  "(string \<Rightarrow> string) \<Rightarrow> string list \<Rightarrow> NodePool list \<Rightarrow> raw_item list \<Rightarrow>
   error + NodePool list" where
  "expandLoop toLower names res [] = Inr res"
| "expandLoop toLower names res (NotAMap # v) = expandLoop toLower names res v"
| "expandLoop toLower names res (PoolMap m # v) =
     (case key_name m of
        Some n \<Rightarrow>
          if strSliceContains toLower names n
          then Inl (ErrorString (''duplicate node pool name found: '' @ n))
          else expandLoop toLower (names @ [n]) (res @ [expandPool m]) v
      | None \<Rightarrow> expandLoop toLower names (res @ [expandPool m]) v)"

definition kubernikusExpandNodePoolsV1 ::
  "(string \<Rightarrow> string) \<Rightarrow> raw_pools \<Rightarrow> error + NodePool list" where
  "kubernikusExpandNodePoolsV1 toLower raw =
     (case raw of RawList v \<Rightarrow> expandLoop toLower [] [] v | _ \<Rightarrow> Inr [])"

text \<open>The names a raw list gives to its pools, in order: the maps that hold the key.\<close>

fun rawNames :: "raw_item list \<Rightarrow> string list" where
  "rawNames [] = []"
| "rawNames (NotAMap # v) = rawNames v"
| "rawNames (PoolMap m # v) =
     (case key_name m of Some n \<Rightarrow> n # rawNames v | None \<Rightarrow> rawNames v)"


text \<open>The maps of a raw list, in order: the items the loop expands.\<close>

fun rawMaps :: "raw_item list \<Rightarrow> raw_pool list" where
  "rawMaps [] = []"
| "rawMaps (NotAMap # v) = rawMaps v"
| "rawMaps (PoolMap m # v) = m # rawMaps v"

text \<open>The items the expansion iterates over: none unless the raw value is a list.\<close>

definition rawItems :: "raw_pools \<Rightarrow> raw_item list" where
  "rawItems raw = (case raw of RawList v \<Rightarrow> v | _ \<Rightarrow> [])"

section \<open>Clusters and the Kubernikus client\<close>

text \<open>
  The parts of \<open>models.Kluster\<close> and \<open>models.Event\<close> that the provider's polling
  reads. \<open>models.KlusterPhase\<close> is a string type; its constants have the values of
  the API's phase names.
\<close>

record NodePoolInfo =
  info_Name :: string
  Healthy :: int

record KlusterSpec =
  NodePools :: "NodePool list"
  Version :: string

record KlusterStatus =
  Phase :: string
  ApiserverVersion :: string
  status_NodePools :: "NodePoolInfo list"

record Kluster =
  kluster_Name :: string
  Spec :: KlusterSpec
  Status :: KlusterStatus

record Event =
  Reason :: string
  Message :: string

definition KlusterPhaseRunning :: string where
  "KlusterPhaseRunning = ''Running''"

definition KlusterPhaseUpgrading :: string where
  "KlusterPhaseUpgrading = ''Upgrading''"

text \<open>
  The remote operations of the client. Each is a step on the state \<open>'r\<close> of the remote
  side, about which nothing is assumed: it answers with a payload or an error.
\<close>

record 'r kubernikus =
  ShowCluster :: "string \<Rightarrow> 'r \<Rightarrow> (error + Kluster) \<times> 'r"
  GetClusterEvents :: "string \<Rightarrow> 'r \<Rightarrow> (error + Event list) \<times> 'r"
  UpdateCluster :: "string \<Rightarrow> Kluster \<Rightarrow> 'r \<Rightarrow> error option \<times> 'r"

text \<open>
  What a state refresher works on: the remote side, and a count of the fetches
  (\<open>ShowCluster\<close>, \<open>GetClusterEvents\<close>) issued so far. The count is bookkeeping of the
  model; the program does not read it.
\<close>

record 'r fetch_state =
  remote :: 'r
  fetches :: nat

section \<open>The cluster state refresher\<close>

text \<open>
  The inner loop of \<open>kubernikusKlusterV1GetPhase\<close> over the reported node pools:
  \<open>True\<close> when it returns \<open>"Pending"\<close> for the spec pool \<open>a\<close>.
\<close>

fun statusLoop :: "NodePool \<Rightarrow> NodePoolInfo list \<Rightarrow> bool" where
  "statusLoop a [] = False"
| "statusLoop a (s # ss) =
     (if Name a = info_Name s \<and> Size a \<noteq> Healthy s then True else statusLoop a ss)"

text \<open>
  The outer loop over the spec's node pools: the label it returns from inside the loop,
  if it does. The version check stands in the body of the loop, as in the source.
\<close>

fun specLoop :: "Kluster \<Rightarrow> NodePool list \<Rightarrow> string option" where
  "specLoop payload [] = None"
| "specLoop payload (a # as) =
     (if Phase (Status payload) = KlusterPhaseRunning \<and>
         Version (Spec payload) \<noteq> ApiserverVersion (Status payload)
      then Some KlusterPhaseUpgrading
      else if statusLoop a (status_NodePools (Status payload)) then Some ''Pending''
      else specLoop payload as)"

text \<open>
  What the refresher returns once the cluster and its events are fetched and the target
  is not \<open>"Terminated"\<close>: only the last event is inspected.
\<close>

definition inspectKluster :: "Kluster \<Rightarrow> Event list \<Rightarrow> Kluster option \<times> string \<times> error option" where
  "inspectKluster payload events =
     (if length events > 0 \<and>
         (strings_Contains (Reason (last events)) ''Error'' \<or>
          strings_Contains (Reason (last events)) ''Failed'')
      then (None, Reason (last events), Some (ErrorString (Message (last events))))
      else
        (case specLoop payload (NodePools (Spec payload)) of
           Some label \<Rightarrow> (Some payload, label, None)
         | None \<Rightarrow>
             if length (NodePools (Spec payload)) \<noteq> length (status_NodePools (Status payload))
             then (Some payload, ''Pending'', None)
             else (Some payload, Phase (Status payload), None)))"

definition kubernikusKlusterV1GetPhase ::
  "'r kubernikus \<Rightarrow> string \<Rightarrow> string \<Rightarrow>
   'r fetch_state \<Rightarrow> (Kluster option \<times> string \<times> error option) \<times> 'r fetch_state" where
  "kubernikusKlusterV1GetPhase klient target name s =
     (case ShowCluster klient name (remote s) of
        (Inl err, r1) \<Rightarrow> ((None, [], Some err), \<lparr>remote = r1, fetches = fetches s + 1\<rparr>)
      | (Inr result, r1) \<Rightarrow>
          if target \<noteq> ''Terminated'' then
            (case GetClusterEvents klient name r1 of
               (Inl err, r2) \<Rightarrow> ((None, [], Some err), \<lparr>remote = r2, fetches = fetches s + 2\<rparr>)
             | (Inr events, r2) \<Rightarrow>
                 (inspectKluster result events, \<lparr>remote = r2, fetches = fetches s + 2\<rparr>))
          else
            ((Some result, Phase (Status result), None),
             \<lparr>remote = r1, fetches = fetches s + 1\<rparr>))"

section \<open>Waiting for a state\<close>

text \<open>
  \<open>retry.StateChangeConf\<close> of the Terraform plugin SDK. Its method
  \<open>WaitForStateContext\<close> belongs to the SDK, not to the provider: the functions below
  take it as the parameter \<open>wait\<close>, which receives the configuration with the refresher
  and the state the refresher works on, and returns the result object, the error and the
  state it leaves. Durations are nanoseconds.
\<close>

record ('a, 's) StateChangeConf =
  Target :: "string list"
  Pending :: "string list"
  Refresh :: "'s \<Rightarrow> ('a option \<times> string \<times> error option) \<times> 's"
  Timeout :: int
  Delay :: int
  MinTimeout :: int
  NotFoundChecks :: int

type_synonym ('a, 's) WaitForStateContext =
  "('a, 's) StateChangeConf \<Rightarrow> 's \<Rightarrow> ('a option \<times> error option) \<times> 's"

definition Second :: int where
  "Second = 1000000000"

definition kubernikusWaitForClusterV1 ::
  "(Kluster, 'r fetch_state) WaitForStateContext \<Rightarrow> 'r kubernikus \<Rightarrow> string \<Rightarrow> string \<Rightarrow>
   string list \<Rightarrow> int \<Rightarrow> 'r fetch_state \<Rightarrow> error option \<times> 'r fetch_state" where
  "kubernikusWaitForClusterV1 wait klient name target pending timeout s =
     (let stateConf =
            \<lparr>Target = [target],
             Pending = pending,
             Refresh = kubernikusKlusterV1GetPhase klient target name,
             Timeout = timeout,
             Delay = 1 * Second,
             MinTimeout = 1 * Second,
             NotFoundChecks = 0\<rparr>
      in case wait stateConf s of
           ((obj, Some (ShowClusterDefault message txt)), s') \<Rightarrow>
             if target = ''Terminated'' \<and> message = ''Not found''
             then (None, s')
             else (Some (ShowClusterDefault message txt), s')
         | ((obj, err), s') \<Rightarrow> (err, s'))"

section \<open>Updating node pools\<close>

text \<open>
  The state of a reconciliation: what the refreshers work on, and the bodies handed to
  \<open>UpdateCluster\<close> so far, oldest first. The list is bookkeeping of the model. A wait
  works on the \<open>view\<close> only: polling submits nothing.
\<close>

record 'r world =
  view :: "'r fetch_state"
  submitted :: "Kluster list"

definition kubernikusUpdateAndWait ::
  "(Kluster, 'r fetch_state) WaitForStateContext \<Rightarrow> 'r kubernikus \<Rightarrow> Kluster \<Rightarrow> string \<Rightarrow>
   string list \<Rightarrow> int \<Rightarrow> 'r world \<Rightarrow> error option \<times> 'r world" where
  "kubernikusUpdateAndWait wait klient cluster target pending timeout w =
     (case UpdateCluster klient (kluster_Name cluster) cluster (remote (view w)) of
        (Some err, r1) \<Rightarrow>
          (kubernikusHandleErrorV1 ''Error updating cluster'' (Some err),
           \<lparr>view = (view w)\<lparr>remote := r1\<rparr>, submitted = submitted w @ [cluster]\<rparr>)
      | (None, r1) \<Rightarrow>
          (case kubernikusWaitForClusterV1 wait klient (kluster_Name cluster) target pending
                  timeout ((view w)\<lparr>remote := r1\<rparr>) of
             (err, s') \<Rightarrow>
               (kubernikusHandleErrorV1 ''Error waiting for cluster node pools Running state'' err,
                \<lparr>view = s', submitted = submitted w @ [cluster]\<rparr>)))"

text \<open>The condition under which an old pool \<open>op\<close> and a new pool \<open>np\<close> are the same pool.\<close>

definition poolMatches :: "NodePool \<Rightarrow> NodePool \<Rightarrow> bool" where
  "poolMatches op np =
     (Name op = Name np \<and> Flavor op = Flavor np \<and> Image op = Image np \<and>
      (AvailabilityZone np = [] \<or> AvailabilityZone op = AvailabilityZone np))"

text \<open>The entry kept for a match: the new pool, with the old zone when it names none.\<close>

definition keptPool :: "NodePool \<Rightarrow> NodePool \<Rightarrow> NodePool" where
  "keptPool op np =
     (if AvailabilityZone np = [] then np\<lparr>AvailabilityZone := AvailabilityZone op\<rparr> else np)"

text \<open>The inner loop over the new pools, for one old pool: \<open>poolsToKeep\<close> and \<open>found\<close>.\<close>

fun newLoop :: "NodePool \<Rightarrow> NodePool list \<Rightarrow> NodePool list \<Rightarrow> bool \<Rightarrow> NodePool list \<times> bool" where
  "newLoop op [] poolsToKeep found = (poolsToKeep, found)"
| "newLoop op (np # nps) poolsToKeep found =
     (if poolMatches op np
      then newLoop op nps (poolsToKeep @ [keptPool op np]) True
      else newLoop op nps poolsToKeep found)"

text \<open>The outer loop over the old pools: \<open>poolsToKeep\<close> and \<open>poolsToDelete\<close>.\<close>

fun oldLoop ::
  "NodePool list \<Rightarrow> NodePool list \<Rightarrow> NodePool list \<Rightarrow> NodePool list \<Rightarrow>
   NodePool list \<times> NodePool list" where
  "oldLoop [] newNodePools poolsToKeep poolsToDelete = (poolsToKeep, poolsToDelete)"
| "oldLoop (op # ops) newNodePools poolsToKeep poolsToDelete =
     (case newLoop op newNodePools poolsToKeep False of
        (keep, found) \<Rightarrow>
          if \<not> found
          then oldLoop ops newNodePools keep (poolsToDelete @ [op\<lparr>Size := 0\<rparr>])
          else oldLoop ops newNodePools keep poolsToDelete)"

text \<open>
  What the two loops compute, said without accumulators: the entries kept for one old
  pool, and whether an old pool has no match among the new ones.
\<close>

definition keptFor :: "NodePool list \<Rightarrow> NodePool \<Rightarrow> NodePool list" where
  "keptFor newNodePools op = map (keptPool op) (filter (poolMatches op) newNodePools)"

definition unmatched :: "NodePool list \<Rightarrow> NodePool \<Rightarrow> bool" where
  "unmatched newNodePools op = (\<forall>np \<in> set newNodePools. \<not> poolMatches op np)"

definition withNodePools :: "Kluster \<Rightarrow> NodePool list \<Rightarrow> Kluster" where
  "withNodePools cluster pools = cluster\<lparr>Spec := (Spec cluster)\<lparr>NodePools := pools\<rparr>\<rparr>"

text \<open>
  The three steps of \<open>kubernikusUpdateNodePoolsV1\<close> once both lists are expanded and
  matched. The result holds the error, the cluster object as the steps have left it, and
  the state.
\<close>

definition applySteps ::
  "(Kluster, 'r fetch_state) WaitForStateContext \<Rightarrow> 'r kubernikus \<Rightarrow> Kluster \<Rightarrow>
   NodePool list \<Rightarrow> NodePool list \<Rightarrow> NodePool list \<Rightarrow> string \<Rightarrow> string list \<Rightarrow> int \<Rightarrow>
   'r world \<Rightarrow> error option \<times> Kluster \<times> 'r world" where
  "applySteps wait klient cluster poolsToKeep poolsToDelete newNodePools target pending timeout w =
     (case (if length poolsToDelete > 0
            then (let c = withNodePools cluster (poolsToKeep @ poolsToDelete)
                  in case kubernikusUpdateAndWait wait klient c target pending timeout w of
                       (err, w') \<Rightarrow> (err, c, w'))
            else (None, cluster, w)) of
        (Some err, c1, w1) \<Rightarrow> (Some err, c1, w1)
      | (None, c1, w1) \<Rightarrow>
          (let c2 = withNodePools c1 poolsToKeep
           in case kubernikusUpdateAndWait wait klient c2 target pending timeout w1 of
                (Some err, w2) \<Rightarrow> (Some err, c2, w2)
              | (None, w2) \<Rightarrow>
                  if poolsToKeep \<noteq> newNodePools
                  then (let c3 = withNodePools c2 newNodePools
                        in case kubernikusUpdateAndWait wait klient c3 target pending timeout w2 of
                             (err, w3) \<Rightarrow> (err, c3, w3))
                  else (None, c2, w2)))"

text \<open>
  \<open>kubernikusUpdateNodePoolsV1\<close>. The two \<open>json.MarshalIndent\<close> calls only feed the
  debug log; on slices of \<open>models.NodePool\<close> they do not fail.
\<close>

definition kubernikusUpdateNodePoolsV1 ::
  "(string \<Rightarrow> string) \<Rightarrow> (Kluster, 'r fetch_state) WaitForStateContext \<Rightarrow> 'r kubernikus \<Rightarrow>
   Kluster \<Rightarrow> raw_pools \<Rightarrow> raw_pools \<Rightarrow> string \<Rightarrow> string list \<Rightarrow> int \<Rightarrow>
   'r world \<Rightarrow> error option \<times> Kluster \<times> 'r world" where
  "kubernikusUpdateNodePoolsV1 toLower wait klient cluster oldNodePoolsRaw newNodePoolsRaw target
       pending timeout w =
     (case kubernikusExpandNodePoolsV1 toLower oldNodePoolsRaw of
        Inl err \<Rightarrow> (Some err, cluster, w)
      | Inr oldNodePools \<Rightarrow>
          (case kubernikusExpandNodePoolsV1 toLower newNodePoolsRaw of
             Inl err \<Rightarrow> (Some err, cluster, w)
           | Inr newNodePools \<Rightarrow>
               (case oldLoop oldNodePools newNodePools [] [] of
                  (poolsToKeep, poolsToDelete) \<Rightarrow>
                    applySteps wait klient cluster poolsToKeep poolsToDelete newNodePools
                      target pending timeout w)))"

text \<open>The node-pool lists of the submitted bodies, oldest first.\<close>

definition submittedPools :: "'r world \<Rightarrow> NodePool list list" where
  "submittedPools w = map (\<lambda>c. NodePools (Spec c)) (submitted w)"


section \<open>Arc agents\<close>

text \<open>
  \<open>agents.Agent\<close> with the fields that identify it, and the calls of the Arc client:
  \<open>agents.Get(...).Extract()\<close>, \<open>agents.List(...).AllPages(ctx)\<close> for a filter, and
  \<open>agents.ExtractAgents\<close> on the pages \<open>'p\<close> it returned.
\<close>

record Agent =
  AgentID :: string
  DisplayName :: string

record ('s, 'p) arcClient =
  agents_Get :: "string \<Rightarrow> 's \<Rightarrow> (error + Agent) \<times> 's"
  agents_List_AllPages :: "string \<Rightarrow> 's \<Rightarrow> (error + 'p) \<times> 's"
  agents_ExtractAgents :: "'p \<Rightarrow> error + Agent list"

text \<open>
  The state an agent refresher works on: the remote side, and a count of the calls of
  the refresher so far (bookkeeping of the model).
\<close>

record 's arc_state =
  arc_remote :: 's
  refreshes :: nat

definition arcSCIArcAgentV1GetAgent ::
  "('s, 'p) arcClient \<Rightarrow> string \<Rightarrow> string \<Rightarrow> int \<Rightarrow>
   's arc_state \<Rightarrow> (Agent option \<times> string \<times> error option) \<times> 's arc_state" where
  "arcSCIArcAgentV1GetAgent arcClient agentID filter' timeout s0 =
     (let s = s0\<lparr>refreshes := refreshes s0 + 1\<rparr> in
      if length agentID = 0 \<and> length filter' = 0 then
        ((None, [],
          Some (ErrorString
            ''at least one of agent_id or filter parameters is expected in sci_arc_agent_v1'')), s)
      else if length agentID > 0 then
        (case agents_Get arcClient agentID (arc_remote s) of
           (Inl err, r) \<Rightarrow>
             if ResponseCodeIs err StatusNotFound \<and> timeout > 0
             then ((None,
                    ''unable to retrieve '' @ agentID @ '' sci_arc_agent_v1: '' @ Error err,
                    None), s\<lparr>arc_remote := r\<rparr>)
             else ((None, [],
                    Some (ErrorString
                      (''unable to retrieve '' @ agentID @ '' sci_arc_agent_v1: '' @ Error err))),
                   s\<lparr>arc_remote := r\<rparr>)
         | (Inr agent, r) \<Rightarrow> ((Some agent, ''active'', None), s\<lparr>arc_remote := r\<rparr>))
      else
        (case agents_List_AllPages arcClient filter' (arc_remote s) of
           (Inl err, r) \<Rightarrow>
             ((None, [], Some (ErrorString (''unable to list sci_arc_agent_v1: '' @ Error err))),
              s\<lparr>arc_remote := r\<rparr>)
         | (Inr allPages, r) \<Rightarrow>
             (case agents_ExtractAgents arcClient allPages of
                Inl err \<Rightarrow>
                  ((None, [],
                    Some (ErrorString (''unable to retrieve sci_arc_agent_v1: '' @ Error err))),
                   s\<lparr>arc_remote := r\<rparr>)
              | Inr allAgents \<Rightarrow>
                  if length allAgents = 0
                  then ((None, ''No sci_arc_agent_v1 found'', None), s\<lparr>arc_remote := r\<rparr>)
                  else if length allAgents > 1
                  then ((None, [],
                         Some (ErrorString
                           (''more than one sci_arc_agent_v1 found ('' @
                            itoa (length allAgents) @ '')''))),
                        s\<lparr>arc_remote := r\<rparr>)
                  else ((Some (allAgents ! 0), ''active'', None), s\<lparr>arc_remote := r\<rparr>))))"

text \<open>
  What \<open>arcSCIArcAgentV1WaitForAgent\<close> returns: the agent with a nil error, a nil agent
  with an error, or the panic of the final type assertion on a nil interface value.
\<close>

datatype agent_result = Found Agent | Failed error | Panic

definition arcSCIArcAgentV1WaitForAgent ::
  "(Agent, 's arc_state) WaitForStateContext \<Rightarrow> ('s, 'p) arcClient \<Rightarrow> string \<Rightarrow> string \<Rightarrow>
   int \<Rightarrow> 's arc_state \<Rightarrow> agent_result \<times> 's arc_state" where
  "arcSCIArcAgentV1WaitForAgent wait arcClient agentID filter' timeout s =
     (case (if timeout > 0
            then (let waitForAgent =
                        \<lparr>Target = [''active''],
                         Pending = [],
                         Refresh = arcSCIArcAgentV1GetAgent arcClient agentID filter' timeout,
                         Timeout = timeout,
                         Delay = 1 * Second,
                         MinTimeout = 1 * Second,
                         NotFoundChecks = 1000\<rparr>
                  in case wait waitForAgent s of ((agent, err), s') \<Rightarrow> ((agent, [], err), s'))
            else arcSCIArcAgentV1GetAgent arcClient agentID filter' timeout s) of
        ((agent, msg, err), s') \<Rightarrow>
          if length msg > 0 \<and> msg \<noteq> ''active'' then (Failed (ErrorString msg), s')
          else
            (case err of
               Some e \<Rightarrow> (Failed e, s')
             | None \<Rightarrow> (case agent of Some a \<Rightarrow> (Found a, s') | None \<Rightarrow> (Panic, s'))))"

section \<open>Concrete remotes\<close>

text \<open>
  A poller that samples once: an error of the refresher is returned, a label among the
  targets is success, any other label is an error. It stands for the SDK's loop where a
  concrete run is evaluated.
\<close>

definition sampleOnce :: "('a, 's) WaitForStateContext" where
  "sampleOnce conf s =
     (case Refresh conf s of
        ((obj, label, Some err), s') \<Rightarrow> ((None, Some err), s')
      | ((obj, label, None), s') \<Rightarrow>
          if label \<in> set (Target conf) then ((obj, None), s')
          else ((None, Some (ErrorString (''unexpected state '' @ label))), s'))"

text \<open>
  A poller that gives up at once when the timeout is not positive, without a sample,
  as the comment in \<open>arcSCIArcAgentV1WaitForAgent\<close> says the SDK's does (a zero timeout
  always raises the timeout error); with a positive timeout it samples once.
\<close>

definition expiringPoller :: "('a, 's) WaitForStateContext" where
  "expiringPoller conf s =
     (if Timeout conf \<le> 0
      then ((None,
             Some (ErrorString
               (''timeout while waiting for state to become '' @ concat (Target conf)))), s)
      else sampleOnce conf s)"

text \<open>
  A fold for names written in ASCII, on which it is \<open>strings.ToLower\<close>: the letters
  \<open>A\<close> to \<open>Z\<close> move to \<open>a\<close> to \<open>z\<close>, every other byte stays. It instantiates the
  parameter \<open>toLower\<close> where a concrete run is evaluated, on ASCII names only.
\<close>

definition asciiToLowerChar :: "char \<Rightarrow> char" where
  "asciiToLowerChar c =
     (case map_of (zip ''ABCDEFGHIJKLMNOPQRSTUVWXYZ'' ''abcdefghijklmnopqrstuvwxyz'') c of
        Some l \<Rightarrow> l
      | None \<Rightarrow> c)"

definition asciiToLower :: "string \<Rightarrow> string" where
  "asciiToLower s = map asciiToLowerChar s"

text \<open>
  A remote that holds the cluster last submitted and reports it as running, with every
  pool healthy at its requested size and no events.
\<close>

definition steadyKlient :: "Kluster kubernikus" where
  "steadyKlient =
     \<lparr>ShowCluster = (\<lambda>name r.
        (Inr (r\<lparr>Status :=
                  \<lparr>Phase = ''Running'',
                   ApiserverVersion = Version (Spec r),
                   status_NodePools =
                     map (\<lambda>p. \<lparr>info_Name = Name p, Healthy = Size p\<rparr>) (NodePools (Spec r))\<rparr>\<rparr>),
         r)),
      GetClusterEvents = (\<lambda>name r. (Inr [], r)),
      UpdateCluster = (\<lambda>name body r. (None, body))\<rparr>"

text \<open>A remote that answers every fetch with the same cluster and the same events.\<close>

definition fixedKlient :: "Kluster \<Rightarrow> Event list \<Rightarrow> unit kubernikus" where
  "fixedKlient payload events =
     \<lparr>ShowCluster = (\<lambda>name r. (Inr payload, r)),
      GetClusterEvents = (\<lambda>name r. (Inr events, r)),
      UpdateCluster = (\<lambda>name body r. (None, r))\<rparr>"

text \<open>A remote on which the cluster is gone: every call answers \<open>Not found\<close>.\<close>

definition goneKlient :: "unit kubernikus" where
  "goneKlient =
     \<lparr>ShowCluster = (\<lambda>name r. (Inl (ShowClusterDefault ''Not found'' ''unknown error''), r)),
      GetClusterEvents = (\<lambda>name r. (Inl (ErrorString ''Not found''), r)),
      UpdateCluster = (\<lambda>name body r. (Some (ErrorString ''Not found''), r))\<rparr>"

text \<open>
  An Arc remote that answers a fetch by id with \<open>byId\<close> and a listing with \<open>listed\<close>.
\<close>

definition fixedArc :: "error + Agent \<Rightarrow> error + Agent list \<Rightarrow> (unit, Agent list) arcClient" where
  "fixedArc byId listed =
     \<lparr>agents_Get = (\<lambda>agentID r. (byId, r)),
      agents_List_AllPages =
        (\<lambda>filter' r. (case listed of Inl e \<Rightarrow> (Inl e, r) | Inr as \<Rightarrow> (Inr as, r))),
      agents_ExtractAgents = Inr\<rparr>"

definition poolA :: NodePool where
  "poolA =
     \<lparr>AvailabilityZone = ''east-1'', Config = None, CustomRootDiskSize = 0, Flavor = ''f'',
      Image = ''i'', Labels = None, Name = ''a'', Size = 3, Taints = None\<rparr>"

definition rawPoolA :: raw_pool where
  "rawPoolA =
     \<lparr>key_name = Some ''a'', key_flavor = Some ''f'', key_image = Some ''i'', key_size = Some 3,
      key_availability_zone = Some ''east-1'', key_taints = None, key_labels = None,
      key_custom_root_disk_size = None, key_config = None\<rparr>"

definition emptyKluster :: Kluster where
  "emptyKluster =
     \<lparr>kluster_Name = ''k'',
      Spec = \<lparr>NodePools = [], Version = ''1.30.1''\<rparr>,
      Status = \<lparr>Phase = ''Running'', ApiserverVersion = ''1.30.1'', status_NodePools = []\<rparr>\<rparr>"

definition freshWorld :: "Kluster world" where
  "freshWorld = \<lparr>view = \<lparr>remote = emptyKluster, fetches = 0\<rparr>, submitted = []\<rparr>"


text \<open>Events, a cluster whose version is being raised, agents and a 404 of the Arc API.\<close>

definition failedEvent :: Event where
  "failedEvent = \<lparr>Reason = ''FailedCreate'', Message = ''quota exceeded''\<rparr>"

definition normalEvent :: Event where
  "normalEvent = \<lparr>Reason = ''Normal'', Message = ''pool created''\<rparr>"

definition upgradingKluster :: Kluster where
  "upgradingKluster =
     \<lparr>kluster_Name = ''k'',
      Spec = \<lparr>NodePools = [], Version = ''1.31.0''\<rparr>,
      Status = \<lparr>Phase = ''Running'', ApiserverVersion = ''1.30.1'', status_NodePools = []\<rparr>\<rparr>"

definition agentOne :: Agent where
  "agentOne = \<lparr>AgentID = ''7d2c'', DisplayName = ''node-1''\<rparr>"

definition agentTwo :: Agent where
  "agentTwo = \<lparr>AgentID = ''9f41'', DisplayName = ''node-2''\<rparr>"

definition notFound :: error where
  "notFound = ErrUnexpectedResponseCode 404 ''Resource not found''"

section \<open>Expansion and the check for duplicate names\<close>

lemma strSliceContains_iff:
  "strSliceContains toLower sl str \<longleftrightarrow> toLower str \<in> set (map toLower sl)"
  by (induction sl) auto

lemma expandLoop_distinct:
  "distinct (map toLower (names @ rawNames v)) \<Longrightarrow>
   expandLoop toLower names res v = Inr (res @ map expandPool (rawMaps v))"
proof (induction toLower names res v rule: expandLoop.induct)
  case (1 toLower names res)
  then show ?case by simp
next
  case (2 toLower names res v)
  then show ?case by simp
next
  case (3 toLower names res m v)
  then show ?case
    by (cases "key_name m") (auto simp: strSliceContains_iff)
qed

lemma count_list_twice:
  assumes "x \<in> set xs" and "x \<in> set ys"
  shows "1 < count_list (xs @ ys) x"
proof -
  have "count_list xs x \<noteq> 0" and "count_list ys x \<noteq> 0"
    using assms by (simp_all add: count_list_0_iff)
  then show ?thesis by simp
qed

lemma expandLoop_duplicate:
  "distinct (map toLower names) \<Longrightarrow>
   \<not> distinct (map toLower (names @ rawNames v)) \<Longrightarrow>
   \<exists>n. n \<in> set (rawNames v) \<and>
       expandLoop toLower names res v = Inl (ErrorString (''duplicate node pool name found: '' @ n)) \<and>
       1 < count_list (map toLower (names @ rawNames v)) (toLower n)"
proof (induction toLower names res v rule: expandLoop.induct)
  case (1 toLower names res)
  then show ?case by simp
next
  case (2 toLower names res v)
  then show ?case by simp
next
  case (3 toLower names res m v)
  show ?case
  proof (cases "key_name m")
    case None
    with 3 show ?thesis by simp
  next
    case (Some n)
    show ?thesis
    proof (cases "strSliceContains toLower names n")
      case True
      then have "toLower n \<in> set (map toLower names)"
        by (simp add: strSliceContains_iff)
      then have "1 < count_list (map toLower names @ map toLower (n # rawNames v))
                     (toLower n)"
        by (intro count_list_twice) auto
      with True Some show ?thesis by auto
    next
      case False
      then have d: "distinct (map toLower (names @ [n]))"
        using "3.prems"(1) by (simp add: strSliceContains_iff)
      have nd: "\<not> distinct (map toLower ((names @ [n]) @ rawNames v))"
        using "3.prems"(2) Some by simp
      from "3.IH"(2)[OF Some False d nd] Some False show ?thesis
        by auto
    qed
  qed
qed

lemma expand_duplicate:
  assumes "\<not> distinct (map toLower (rawNames v))"
  shows "\<exists>n. n \<in> set (rawNames v) \<and>
           kubernikusExpandNodePoolsV1 toLower (RawList v) =
             Inl (ErrorString (''duplicate node pool name found: '' @ n)) \<and>
           1 < count_list (map toLower (rawNames v)) (toLower n)"
  using expandLoop_duplicate[where names = "[]" and v = v and res = "[]" and toLower = toLower] assms
  by (simp add: kubernikusExpandNodePoolsV1_def)

lemma expand_distinct:
  assumes "distinct (map toLower (rawNames v))"
  shows "kubernikusExpandNodePoolsV1 toLower (RawList v) = Inr (map expandPool (rawMaps v))"
  using expandLoop_distinct[where names = "[]" and v = v and res = "[]" and toLower = toLower] assms
  by (simp add: kubernikusExpandNodePoolsV1_def)

lemma expand_rawItems:
  "kubernikusExpandNodePoolsV1 toLower raw = kubernikusExpandNodePoolsV1 toLower (RawList (rawItems raw))"
  by (cases raw) (simp_all add: kubernikusExpandNodePoolsV1_def rawItems_def)

lemma ToLower_A: "asciiToLower ''A'' = ''a''"
  by (simp add: asciiToLower_def asciiToLowerChar_def)

lemma ToLower_a: "asciiToLower ''a'' = ''a''"
  by (simp add: asciiToLower_def asciiToLowerChar_def)

lemma ToLower_b: "asciiToLower ''b'' = ''b''"
  by (simp add: asciiToLower_def asciiToLowerChar_def)


text \<open>
  Claim C10. The duplicate-name check of \<open>kubernikusExpandNodePoolsV1\<close> compares names
  after lowercasing them, whatever the fold \<open>toLower\<close> is. When two entries of the list
  have names that are equal after lowercasing, the expansion returns the duplicate-name
  error, and the name in the message is one whose lowercase form occurs at least twice.
  When the lowercased names are all distinct, it returns no error, and the result is the
  expansion of every map of the list, in order. With the names \<open>A\<close> and \<open>a\<close> the
  error names \<open>a\<close>.
\<close>

theorem expand_duplicate_check_ignores_case:
  "(\<not> distinct (map toLower (rawNames v)) \<longrightarrow>
      (\<exists>n. n \<in> set (rawNames v) \<and>
         kubernikusExpandNodePoolsV1 toLower (RawList v) =
           Inl (ErrorString (''duplicate node pool name found: '' @ n)) \<and>
         1 < count_list (map toLower (rawNames v)) (toLower n))) \<and>
   (distinct (map toLower (rawNames v)) \<longrightarrow>
      kubernikusExpandNodePoolsV1 toLower (RawList v) = Inr (map expandPool (rawMaps v)))"
  using expand_duplicate[of toLower v] expand_distinct[of toLower v] by blast

theorem expand_duplicate_check_ignores_case_witness:
  "\<not> distinct (map asciiToLower
        (rawNames [PoolMap (rawPoolA\<lparr>key_name := Some ''A''\<rparr>), PoolMap rawPoolA])) \<and>
   kubernikusExpandNodePoolsV1 asciiToLower
      (RawList [PoolMap (rawPoolA\<lparr>key_name := Some ''A''\<rparr>), PoolMap rawPoolA]) =
     Inl (ErrorString ''duplicate node pool name found: a'') \<and>
   distinct (map asciiToLower
        (rawNames [PoolMap rawPoolA, PoolMap (rawPoolA\<lparr>key_name := Some ''b''\<rparr>)])) \<and>
   kubernikusExpandNodePoolsV1 asciiToLower
      (RawList [PoolMap rawPoolA, PoolMap (rawPoolA\<lparr>key_name := Some ''b''\<rparr>)]) =
     Inr [poolA, poolA\<lparr>Name := ''b''\<rparr>]"
  using expand_duplicate_check_ignores_case
          [of asciiToLower "[PoolMap (rawPoolA\<lparr>key_name := Some ''A''\<rparr>), PoolMap rawPoolA]"]
        expand_duplicate_check_ignores_case
          [of asciiToLower "[PoolMap rawPoolA, PoolMap (rawPoolA\<lparr>key_name := Some ''b''\<rparr>)]"]
  by (simp add: rawPoolA_def poolA_def expandPool_def ToLower_A ToLower_a ToLower_b
        kubernikusExpandNodePoolsV1_def)


text \<open>
  Claim C4. When the old or the new raw list holds two entries with the same name,
  \<open>kubernikusUpdateNodePoolsV1\<close> returns the duplicate-name error naming such a pool,
  and neither the cluster object nor the state has changed: no body was submitted and
  nothing was fetched, whatever the client and the poller are.
\<close>

theorem reconcile_rejects_duplicate_names:
  assumes "\<not> distinct (rawNames (rawItems oldNodePoolsRaw)) \<or>
           \<not> distinct (rawNames (rawItems newNodePoolsRaw))"
  shows "\<exists>n. n \<in> set (rawNames (rawItems oldNodePoolsRaw)) \<union>
               set (rawNames (rawItems newNodePoolsRaw)) \<and>
           (1 < count_list (map toLower (rawNames (rawItems oldNodePoolsRaw)))
                  (toLower n) \<or>
            1 < count_list (map toLower (rawNames (rawItems newNodePoolsRaw)))
                  (toLower n)) \<and>
           kubernikusUpdateNodePoolsV1 toLower wait klient cluster oldNodePoolsRaw newNodePoolsRaw
               target pending timeout w =
             (Some (ErrorString (''duplicate node pool name found: '' @ n)), cluster, w)"
proof (cases "distinct (map toLower (rawNames (rawItems oldNodePoolsRaw)))")
  case False
  from expand_duplicate[OF False] show ?thesis
    by (auto simp: kubernikusUpdateNodePoolsV1_def expand_rawItems[of toLower oldNodePoolsRaw])
next
  case True
  then have "distinct (rawNames (rawItems oldNodePoolsRaw))"
    by (simp add: distinct_map)
  with assms have "\<not> distinct (rawNames (rawItems newNodePoolsRaw))" by simp
  then have "\<not> distinct (map toLower (rawNames (rawItems newNodePoolsRaw)))"
    using distinct_map by blast
  from expand_duplicate[OF this] expand_distinct[OF True] show ?thesis
    by (auto simp: kubernikusUpdateNodePoolsV1_def expand_rawItems[of toLower oldNodePoolsRaw]
        expand_rawItems[of toLower newNodePoolsRaw])
qed

theorem reconcile_rejects_duplicate_names_witness:
  "\<not> distinct (rawNames (rawItems (RawList [PoolMap rawPoolA, PoolMap rawPoolA]))) \<and>
   kubernikusUpdateNodePoolsV1 asciiToLower sampleOnce steadyKlient emptyKluster
       (RawList [PoolMap rawPoolA, PoolMap rawPoolA]) RawNil
       ''Running'' [''Pending''] Second freshWorld =
     (Some (ErrorString ''duplicate node pool name found: a''), emptyKluster, freshWorld) \<and>
   \<not> distinct (rawNames (rawItems
        (RawList [PoolMap rawPoolA, PoolMap (rawPoolA\<lparr>key_size := Some 5\<rparr>)]))) \<and>
   kubernikusUpdateNodePoolsV1 asciiToLower sampleOnce steadyKlient emptyKluster
       (RawList [PoolMap rawPoolA])
       (RawList [PoolMap rawPoolA, PoolMap (rawPoolA\<lparr>key_size := Some 5\<rparr>)])
       ''Running'' [''Pending''] Second freshWorld =
     (Some (ErrorString ''duplicate node pool name found: a''), emptyKluster, freshWorld)"
  using reconcile_rejects_duplicate_names
          [of "RawList [PoolMap rawPoolA, PoolMap rawPoolA]" RawNil asciiToLower sampleOnce
              steadyKlient emptyKluster "''Running''" "[''Pending'']" Second freshWorld]
        reconcile_rejects_duplicate_names
          [of "RawList [PoolMap rawPoolA]"
              "RawList [PoolMap rawPoolA, PoolMap (rawPoolA\<lparr>key_size := Some 5\<rparr>)]"
              asciiToLower sampleOnce steadyKlient emptyKluster "''Running''" "[''Pending'']" Second freshWorld]
  by (simp add: rawPoolA_def rawItems_def)

section \<open>Matching old and new node pools\<close>

lemma newLoop_eq:
  "newLoop op nps keep found =
     (keep @ map (keptPool op) (filter (poolMatches op) nps),
      found \<or> (\<exists>np \<in> set nps. poolMatches op np))"
  by (induction nps arbitrary: keep found) auto

lemma oldLoop_eq:
  "oldLoop ops new keep del =
     (keep @ concat (map (keptFor new) ops),
      del @ map (\<lambda>op. op\<lparr>Size := 0\<rparr>) (filter (unmatched new) ops))"
  by (induction ops arbitrary: keep del) (auto simp: newLoop_eq keptFor_def unmatched_def)

lemma filter_single:
  assumes "distinct (map f xs)" and "x \<in> set xs"
    and "\<And>y. y \<in> set xs \<Longrightarrow> P y \<longleftrightarrow> f y = f x"
  shows "filter P xs = [x]"
  using assms
proof (induction xs)
  case Nil
  then show ?case by simp
next
  case (Cons a xs)
  show ?case
  proof (cases "a = x")
    case True
    have "filter P xs = []"
      using Cons.prems True by (auto simp: filter_empty_conv image_iff)
    with True Cons.prems show ?thesis by simp
  next
    case False
    with Cons.prems have x: "x \<in> set xs" by simp
    have "\<not> P a" using Cons.prems(1,3) x False by (auto simp: image_iff)
    moreover have "filter P xs = [x]"
      using Cons.IH Cons.prems x by simp
    ultimately show ?thesis by simp
  qed
qed

lemma keptFor_self:
  assumes "distinct (map Name ps)" and "op \<in> set ps"
  shows "keptFor ps op = [op]"
proof -
  have "filter (poolMatches op) ps = [op]"
  proof (rule filter_single[where f = Name])
    show "distinct (map Name ps)" by fact
    show "op \<in> set ps" by fact
  next
    fix y assume "y \<in> set ps"
    with assms have "Name y = Name op \<longleftrightarrow> y = op"
      by (auto simp: distinct_map inj_on_def)
    then show "poolMatches op y \<longleftrightarrow> Name y = Name op"
      by (auto simp: poolMatches_def)
  qed
  then show ?thesis by (simp add: keptFor_def keptPool_def)
qed

lemma concat_singletons:
  "(\<And>x. x \<in> set xs \<Longrightarrow> F x = [x]) \<Longrightarrow> concat (map F xs) = xs"
  by (induction xs) auto

lemma oldLoop_same:
  assumes "distinct (map Name ps)"
  shows "oldLoop ps ps [] [] = (ps, [])"
proof -
  have "concat (map (keptFor ps) ps) = ps"
    using assms by (intro concat_singletons) (simp add: keptFor_self)
  moreover have "filter (unmatched ps) ps = []"
    by (auto simp: filter_empty_conv unmatched_def poolMatches_def)
  ultimately show ?thesis by (simp add: oldLoop_eq)
qed

lemma updateAndWait_submitted:
  "kubernikusUpdateAndWait wait klient c target pending timeout w = (err, w') \<Longrightarrow>
   submitted w' = submitted w @ [c]"
  by (auto simp: kubernikusUpdateAndWait_def split: prod.splits option.splits)

lemma withNodePools_pools [simp]: "NodePools (Spec (withNodePools c ps)) = ps"
  by (simp add: withNodePools_def)

lemma applySteps_same:
  assumes "applySteps wait klient cluster ps [] ps target pending timeout w = (err, c', w')"
  shows "submittedPools w' = submittedPools w @ [ps]"
  using assms
  by (auto simp: applySteps_def submittedPools_def Let_def
      split: prod.splits option.splits dest!: updateAndWait_submitted)

lemma applySteps_removed:
  assumes "applySteps wait klient cluster [] [p] [] target pending timeout w = (err, c', w')"
  shows "(err = None \<longrightarrow> submittedPools w' = submittedPools w @ [[p], []]) \<and>
         (submittedPools w' = submittedPools w @ [[p]] \<or>
          submittedPools w' = submittedPools w @ [[p], []])"
  using assms
  by (auto simp: applySteps_def submittedPools_def Let_def
      split: prod.splits option.splits dest!: updateAndWait_submitted)


text \<open>
  Claim C7. When an old pool and a new pool have the same name, flavor and image and the
  new entry leaves \<open>availability_zone\<close> unset, the list of pools to keep holds the new
  entry with the zone of the old one, which is the zone the remote side had assigned.
  For the old pool \<open>a\<close> observed in \<open>east-1\<close> and the same pool with no zone as the new
  entry, the list to keep is that pool with zone \<open>east-1\<close>.
\<close>

theorem matched_pool_inherits_zone:
  assumes "op \<in> set oldNodePools" and "np \<in> set newNodePools"
    and "Name op = Name np" and "Flavor op = Flavor np" and "Image op = Image np"
    and "AvailabilityZone np = []"
  shows "np\<lparr>AvailabilityZone := AvailabilityZone op\<rparr> \<in>
           set (fst (oldLoop oldNodePools newNodePools [] []))"
proof -
  have "poolMatches op np"
    using assms by (simp add: poolMatches_def)
  with assms(2) have "keptPool op np \<in> set (keptFor newNodePools op)"
    by (simp add: keptFor_def)
  with assms(1) have "keptPool op np \<in> set (concat (map (keptFor newNodePools) oldNodePools))"
    by auto
  moreover have "keptPool op np = np\<lparr>AvailabilityZone := AvailabilityZone op\<rparr>"
    using assms(6) by (simp add: keptPool_def)
  ultimately show ?thesis by (simp add: oldLoop_eq)
qed

theorem matched_pool_inherits_zone_witness:
  "poolA \<in> set [poolA] \<and>
   poolA\<lparr>AvailabilityZone := []\<rparr> \<in> set [poolA\<lparr>AvailabilityZone := []\<rparr>] \<and>
   AvailabilityZone (poolA\<lparr>AvailabilityZone := []\<rparr>) = [] \<and>
   AvailabilityZone poolA = ''east-1'' \<and>
   fst (oldLoop [poolA] [poolA\<lparr>AvailabilityZone := []\<rparr>] [] []) =
     [poolA\<lparr>AvailabilityZone := ''east-1''\<rparr>]"
  using matched_pool_inherits_zone
          [of poolA "[poolA]" "poolA\<lparr>AvailabilityZone := []\<rparr>" "[poolA\<lparr>AvailabilityZone := []\<rparr>]"]
  by (simp add: poolA_def poolMatches_def keptPool_def)


section \<open>The steps of a reconciliation\<close>

lemmas run_defs =
  kubernikusUpdateNodePoolsV1_def kubernikusExpandNodePoolsV1_def applySteps_def
  kubernikusUpdateAndWait_def kubernikusWaitForClusterV1_def kubernikusKlusterV1GetPhase_def
  inspectKluster_def sampleOnce_def steadyKlient_def withNodePools_def expandPool_def
  KlusterPhaseRunning_def KlusterPhaseUpgrading_def poolMatches_def keptPool_def
  rawPoolA_def poolA_def emptyKluster_def freshWorld_def submittedPools_def Let_def

lemma run_removed:
  "kubernikusUpdateNodePoolsV1 asciiToLower sampleOnce steadyKlient emptyKluster
       (RawList [PoolMap rawPoolA]) (RawList []) ''Running'' [''Pending''] Second freshWorld =
     (None, emptyKluster,
      \<lparr>view = \<lparr>remote = emptyKluster, fetches = 4\<rparr>,
       submitted = [withNodePools emptyKluster [poolA\<lparr>Size := 0\<rparr>], emptyKluster]\<rparr>)"
  by (simp add: run_defs)

lemma run_unchanged:
  "kubernikusUpdateNodePoolsV1 asciiToLower sampleOnce steadyKlient emptyKluster
       (RawList [PoolMap rawPoolA]) (RawList [PoolMap rawPoolA]) ''Running'' [''Pending''] Second freshWorld =
     (None, withNodePools emptyKluster [poolA],
      \<lparr>view = \<lparr>remote = withNodePools emptyKluster [poolA], fetches = 2\<rparr>,
       submitted = [withNodePools emptyKluster [poolA]]\<rparr>)"
  by (simp add: run_defs)


text \<open>
  Claim C3. The old list holds the one pool \<open>a\<close> with flavor \<open>f\<close>, image \<open>i\<close> and size
  3, and the new list is empty. When the reconciliation returns no error, the bodies it
  has submitted are two, in this order: the list with pool \<open>a\<close> at size 0 alone, then
  the empty list; there is no third, create-step submission. When a step fails, the
  submissions are the first of these, or both.
\<close>

theorem removed_pool_two_submissions:
  assumes "key_name m = Some ''a''" and "key_flavor m = Some f" and "key_image m = Some i"
    and "key_size m = Some 3"
    and "kubernikusUpdateNodePoolsV1 toLower wait klient cluster (RawList [PoolMap m]) (RawList [])
           target pending timeout w = (err, cluster', w')"
  shows "\<exists>p. p = (expandPool m)\<lparr>Size := 0\<rparr> \<and>
           Name p = ''a'' \<and> Flavor p = f \<and> Image p = i \<and> Size p = 0 \<and>
           (err = None \<longrightarrow> submittedPools w' = submittedPools w @ [[p], []]) \<and>
           (submittedPools w' = submittedPools w @ [[p]] \<or>
            submittedPools w' = submittedPools w @ [[p], []])"
proof -
  have old: "kubernikusExpandNodePoolsV1 toLower (RawList [PoolMap m]) = Inr [expandPool m]"
    using assms(1) by (simp add: kubernikusExpandNodePoolsV1_def)
  have new: "kubernikusExpandNodePoolsV1 toLower (RawList []) = Inr []"
    by (simp add: kubernikusExpandNodePoolsV1_def)
  have "oldLoop [expandPool m] [] [] [] = ([], [(expandPool m)\<lparr>Size := 0\<rparr>])"
    by simp
  with assms(5) old new
  have "applySteps wait klient cluster [] [(expandPool m)\<lparr>Size := 0\<rparr>] [] target pending
          timeout w = (err, cluster', w')"
    by (simp add: kubernikusUpdateNodePoolsV1_def)
  from applySteps_removed[OF this] assms(1-4) show ?thesis
    by (simp add: expandPool_def)
qed


theorem removed_pool_two_submissions_witness:
  "key_name rawPoolA = Some ''a'' \<and> key_flavor rawPoolA = Some ''f'' \<and>
   key_image rawPoolA = Some ''i'' \<and> key_size rawPoolA = Some 3 \<and>
   fst (kubernikusUpdateNodePoolsV1 asciiToLower sampleOnce steadyKlient emptyKluster
          (RawList [PoolMap rawPoolA]) (RawList []) ''Running'' [''Pending''] Second
          freshWorld) = None \<and>
   submittedPools (snd (snd (kubernikusUpdateNodePoolsV1 asciiToLower sampleOnce steadyKlient emptyKluster
          (RawList [PoolMap rawPoolA]) (RawList []) ''Running'' [''Pending''] Second
          freshWorld))) =
     [[poolA\<lparr>Size := 0\<rparr>], []]"
proof -
  have m: "key_name rawPoolA = Some ''a''" "key_flavor rawPoolA = Some ''f''"
    "key_image rawPoolA = Some ''i''" "key_size rawPoolA = Some 3"
    by (simp_all add: rawPoolA_def)
  from removed_pool_two_submissions[OF m run_removed] m show ?thesis
    unfolding run_removed
    by (simp add: expandPool_def rawPoolA_def poolA_def submittedPools_def withNodePools_def
          emptyKluster_def)
qed

text \<open>
  Claim C1, as the code has it. The old and the new raw list expand to the same pools,
  with names that are unique. Then the reconciliation submits exactly one body, the one
  of the removal step, and its node-pool list is the new list: there is no downscale
  submission and no create submission. This holds whether the submission and the wait
  that follows succeed or fail.
\<close>

theorem unchanged_pools_one_submission:
  assumes "kubernikusExpandNodePoolsV1 toLower oldNodePoolsRaw = Inr pools"
    and "kubernikusExpandNodePoolsV1 toLower newNodePoolsRaw = Inr pools"
    and "distinct (map Name pools)"
  shows "submittedPools
           (snd (snd (kubernikusUpdateNodePoolsV1 toLower wait klient cluster oldNodePoolsRaw
              newNodePoolsRaw target pending timeout w))) =
         submittedPools w @ [pools]"
proof -
  obtain err c' w' where r: "applySteps wait klient cluster pools [] pools target pending timeout w = (err, c', w')"
    by (metis prod_cases3)
  from applySteps_same[OF r] r assms show ?thesis
    by (simp add: kubernikusUpdateNodePoolsV1_def oldLoop_same)
qed


theorem unchanged_pools_one_submission_witness:
  "kubernikusExpandNodePoolsV1 asciiToLower (RawList [PoolMap rawPoolA, PoolMap (rawPoolA\<lparr>key_name := Some ''b''\<rparr>)]) =
     Inr [poolA, poolA\<lparr>Name := ''b''\<rparr>] \<and>
   distinct (map Name [poolA, poolA\<lparr>Name := ''b''\<rparr>]) \<and>
   submittedPools
     (snd (snd (kubernikusUpdateNodePoolsV1 asciiToLower sampleOnce steadyKlient emptyKluster
        (RawList [PoolMap rawPoolA, PoolMap (rawPoolA\<lparr>key_name := Some ''b''\<rparr>)])
        (RawList [PoolMap rawPoolA, PoolMap (rawPoolA\<lparr>key_name := Some ''b''\<rparr>)])
        ''Running'' [''Pending''] Second freshWorld))) =
     [[poolA, poolA\<lparr>Name := ''b''\<rparr>]]"
proof -
  have e: "kubernikusExpandNodePoolsV1 asciiToLower
             (RawList [PoolMap rawPoolA, PoolMap (rawPoolA\<lparr>key_name := Some ''b''\<rparr>)]) =
           Inr [poolA, poolA\<lparr>Name := ''b''\<rparr>]"
    by (simp add: kubernikusExpandNodePoolsV1_def expandPool_def rawPoolA_def poolA_def
          ToLower_a ToLower_b)
  have d: "distinct (map Name [poolA, poolA\<lparr>Name := ''b''\<rparr>])"
    by (simp add: poolA_def)
  from unchanged_pools_one_submission[OF e e d, of sampleOnce steadyKlient emptyKluster
         "''Running''" "[''Pending'']" Second freshWorld] e d
  show ?thesis by (simp add: submittedPools_def freshWorld_def)
qed

text \<open>
  The claim C1 as it is written fails: with the one pool \<open>a\<close> as both the old and the new
  list, on a remote that accepts the update and reports the cluster as running, the
  reconciliation has submitted one body and issued two fetches.
\<close>

theorem unchanged_pools_no_calls_counterexample:
  "kubernikusExpandNodePoolsV1 asciiToLower (RawList [PoolMap rawPoolA]) = Inr [poolA] \<and>
   submittedPools (snd (snd (kubernikusUpdateNodePoolsV1 asciiToLower sampleOnce steadyKlient emptyKluster
      (RawList [PoolMap rawPoolA]) (RawList [PoolMap rawPoolA]) ''Running'' [''Pending''] Second
      freshWorld))) = [[poolA]] \<and>
   fetches (view (snd (snd (kubernikusUpdateNodePoolsV1 asciiToLower sampleOnce steadyKlient emptyKluster
      (RawList [PoolMap rawPoolA]) (RawList [PoolMap rawPoolA]) ''Running'' [''Pending''] Second
      freshWorld)))) = 2"
  unfolding run_unchanged
  by (simp add: submittedPools_def withNodePools_def emptyKluster_def
        kubernikusExpandNodePoolsV1_def expandPool_def rawPoolA_def poolA_def)


section \<open>The cluster refresher and the wait for a cluster\<close>

lemma getPhase_show_error:
  assumes "ShowCluster klient name (remote s) = (Inl e, r)"
  shows "kubernikusKlusterV1GetPhase klient target name s =
           ((None, [], Some e), \<lparr>remote = r, fetches = fetches s + 1\<rparr>)"
  using assms by (simp add: kubernikusKlusterV1GetPhase_def)

lemma getPhase_upgrading:
  assumes "target \<noteq> ''Terminated''"
    and "ShowCluster klient name (remote s) = (Inr result, r1)"
    and "GetClusterEvents klient name r1 = (Inr events, r2)"
    and "events = [] \<or> \<not> (strings_Contains (Reason (last events)) ''Error'' \<or>
         strings_Contains (Reason (last events)) ''Failed'')"
    and "Phase (Status result) = ''Running''"
    and "Version (Spec result) \<noteq> ApiserverVersion (Status result)"
    and "NodePools (Spec result) \<noteq> []"
  shows "kubernikusKlusterV1GetPhase klient target name s =
           ((Some result, ''Upgrading'', None), \<lparr>remote = r2, fetches = fetches s + 2\<rparr>)"
proof -
  obtain a as where "NodePools (Spec result) = a # as"
    using assms(7) by (cases "NodePools (Spec result)") auto
  with assms show ?thesis
    by (auto simp: kubernikusKlusterV1GetPhase_def inspectKluster_def KlusterPhaseRunning_def
        KlusterPhaseUpgrading_def)
qed


text \<open>
  Claim C2. A wait for the target \<open>Terminated\<close> whose polling ends with a
  \<open>ShowClusterDefault\<close> error of payload message \<open>Not found\<close> returns no error, in the
  state the polling has left. No sample has the label \<open>Terminated\<close> then: a failed
  \<open>ShowCluster\<close> makes the refresher return the empty label with the error (lemma
  \<open>getPhase_show_error\<close>).
\<close>

theorem delete_wait_not_found_is_success:
  assumes "wait \<lparr>Target = [''Terminated''], Pending = pending,
                 Refresh = kubernikusKlusterV1GetPhase klient ''Terminated'' name,
                 Timeout = timeout, Delay = 1 * Second, MinTimeout = 1 * Second,
                 NotFoundChecks = 0\<rparr> s =
             ((obj, Some (ShowClusterDefault ''Not found'' txt)), s')"
  shows "kubernikusWaitForClusterV1 wait klient name ''Terminated'' pending timeout s = (None, s')"
  using assms by (simp add: kubernikusWaitForClusterV1_def)

theorem delete_wait_not_found_is_success_witness:
  "fst (kubernikusKlusterV1GetPhase goneKlient ''Terminated'' ''k'' \<lparr>remote = (), fetches = 0\<rparr>) =
     (None, [], Some (ShowClusterDefault ''Not found'' ''unknown error'')) \<and>
   kubernikusWaitForClusterV1 sampleOnce goneKlient ''k'' ''Terminated''
       [''Pending'', ''Creating'', ''Running'', ''Upgrading'', ''Terminating''] (10 * Second)
       \<lparr>remote = (), fetches = 0\<rparr> =
     (None, \<lparr>remote = (), fetches = 1\<rparr>)"
proof -
  have w: "sampleOnce \<lparr>Target = [''Terminated''],
                 Pending = [''Pending'', ''Creating'', ''Running'', ''Upgrading'', ''Terminating''],
                 Refresh = kubernikusKlusterV1GetPhase goneKlient ''Terminated'' ''k'',
                 Timeout = 10 * Second, Delay = 1 * Second, MinTimeout = 1 * Second,
                 NotFoundChecks = 0\<rparr> \<lparr>remote = (), fetches = 0\<rparr> =
             ((None, Some (ShowClusterDefault ''Not found'' ''unknown error'')),
              \<lparr>remote = (), fetches = 1\<rparr>)"
    by (simp add: sampleOnce_def kubernikusKlusterV1GetPhase_def goneKlient_def)
  from delete_wait_not_found_is_success
         [where wait = sampleOnce and klient = goneKlient and name = "''k''"
            and pending = "[''Pending'', ''Creating'', ''Running'', ''Upgrading'', ''Terminating'']"
            and timeout = "10 * Second" and s = "\<lparr>remote = (), fetches = 0\<rparr>", OF w]
  show ?thesis
    by (simp add: kubernikusKlusterV1GetPhase_def goneKlient_def)
qed


text \<open>
  Claim C6, as the code has it. The target is not \<open>Terminated\<close> and both fetches
  succeed. When the reason of the most recent event, the last of the fetched list,
  contains \<open>Error\<close> or \<open>Failed\<close>, the refresher returns no object, that reason as
  label and an error with that event's message, whatever the phase, the versions and the
  node pools of the cluster are.
\<close>

theorem last_event_failure_is_fatal:
  assumes "target \<noteq> ''Terminated''"
    and "ShowCluster klient name (remote s) = (Inr result, r1)"
    and "GetClusterEvents klient name r1 = (Inr events, r2)"
    and "events \<noteq> []"
    and "strings_Contains (Reason (last events)) ''Error'' \<or>
         strings_Contains (Reason (last events)) ''Failed''"
  shows "kubernikusKlusterV1GetPhase klient target name s =
           ((None, Reason (last events), Some (ErrorString (Message (last events)))),
            \<lparr>remote = r2, fetches = fetches s + 2\<rparr>)"
  using assms by (simp add: kubernikusKlusterV1GetPhase_def inspectKluster_def)

theorem last_event_failure_is_fatal_witness:
  "[normalEvent, failedEvent] \<noteq> [] \<and>
   strings_Contains (Reason (last [normalEvent, failedEvent])) ''Failed'' \<and>
   kubernikusKlusterV1GetPhase (fixedKlient upgradingKluster [normalEvent, failedEvent])
       ''Running'' ''k'' \<lparr>remote = (), fetches = 0\<rparr> =
     ((None, ''FailedCreate'', Some (ErrorString ''quota exceeded'')),
      \<lparr>remote = (), fetches = 2\<rparr>)"
  using last_event_failure_is_fatal
          [of "''Running''" "fixedKlient upgradingKluster [normalEvent, failedEvent]" "''k''"
              "\<lparr>remote = (), fetches = 0\<rparr>" upgradingKluster "()" "[normalEvent, failedEvent]" "()"]
  by (simp add: fixedKlient_def failedEvent_def normalEvent_def)


text \<open>
  The claim C6 as it is written fails: the events hold a failure that is not the last
  one, and the refresher returns the phase of the cluster and no error.
\<close>

theorem earlier_event_failure_counterexample:
  "strings_Contains (Reason failedEvent) ''Failed'' \<and>
   failedEvent \<in> set [failedEvent, normalEvent] \<and>
   kubernikusKlusterV1GetPhase (fixedKlient emptyKluster [failedEvent, normalEvent])
       ''Running'' ''k'' \<lparr>remote = (), fetches = 0\<rparr> =
     ((Some emptyKluster, ''Running'', None), \<lparr>remote = (), fetches = 2\<rparr>)"
  by (simp add: kubernikusKlusterV1GetPhase_def inspectKluster_def fixedKlient_def
        failedEvent_def normalEvent_def emptyKluster_def)


text \<open>
  Claim C5. A cluster is reported as \<open>Running\<close> while its spec version differs from the
  version of its apiserver, and its spec has no node pools. The version check stands
  inside the loop over the spec's node pools, so it is not reached: for the target
  \<open>Running\<close> the refresher returns the remote phase \<open>Running\<close>, not \<open>Upgrading\<close>.
  (With at least one node pool it returns \<open>Upgrading\<close>: lemma \<open>getPhase_upgrading\<close>.)
\<close>

theorem upgrade_check_skipped_without_node_pools:
  "Phase (Status upgradingKluster) = ''Running'' \<and>
   Version (Spec upgradingKluster) \<noteq> ApiserverVersion (Status upgradingKluster) \<and>
   kubernikusKlusterV1GetPhase (fixedKlient upgradingKluster []) ''Running'' ''k''
       \<lparr>remote = (), fetches = 0\<rparr> =
     ((Some upgradingKluster, ''Running'', None), \<lparr>remote = (), fetches = 2\<rparr>)"
  by (simp add: kubernikusKlusterV1GetPhase_def inspectKluster_def fixedKlient_def
        upgradingKluster_def)


section \<open>The agent refresher and the wait for an agent\<close>

lemma getAgent_counts:
  "refreshes (snd (arcSCIArcAgentV1GetAgent arcClient agentID filter' timeout s)) =
     refreshes s + 1"
  by (simp add: arcSCIArcAgentV1GetAgent_def Let_def split: prod.splits sum.splits)

lemma getAgent_label_or_error:
  assumes "arcSCIArcAgentV1GetAgent arcClient agentID filter' 0 s = ((agent, label, err), s')"
  shows "(label = ''active'' \<and> agent \<noteq> None \<and> err = None) \<or>
         (label \<noteq> ''active'' \<and> label \<noteq> [] \<and> agent = None \<and> err = None) \<or>
         (label = [] \<and> agent = None \<and> err \<noteq> None)"
  using assms
  by (auto simp: arcSCIArcAgentV1GetAgent_def Let_def split: prod.splits sum.splits if_splits)


text \<open>
  Claim C8, as the code has it. A wait for an agent with timeout 0 calls the refresher
  once and returns in the state that call has left, whatever the poller is. When the
  sampled label is the target \<open>active\<close>, the result is the sampled agent with no
  error; for any other label or an error, the result is a failure: the refresher's error
  when the label is empty, an error with the label as its text otherwise.
\<close>

theorem zero_timeout_samples_once:
  "\<exists>agent label err s'.
     arcSCIArcAgentV1GetAgent arcClient agentID filter' 0 s = ((agent, label, err), s') \<and>
     refreshes s' = refreshes s + 1 \<and>
     snd (arcSCIArcAgentV1WaitForAgent wait arcClient agentID filter' 0 s) = s' \<and>
     (if label = ''active''
      then err = None \<and>
           (\<exists>a. agent = Some a \<and>
              fst (arcSCIArcAgentV1WaitForAgent wait arcClient agentID filter' 0 s) = Found a)
      else \<exists>e. fst (arcSCIArcAgentV1WaitForAgent wait arcClient agentID filter' 0 s) = Failed e \<and>
             (if label = [] then err = Some e else e = ErrorString label))"
proof -
  obtain agent label err s' where
    g: "arcSCIArcAgentV1GetAgent arcClient agentID filter' 0 s = ((agent, label, err), s')"
    by (metis prod_cases3 surj_pair)
  have c: "refreshes s' = refreshes s + 1"
    using getAgent_counts[of arcClient agentID filter' 0 s] g by simp
  from getAgent_label_or_error[OF g] g c show ?thesis
    by (auto simp: arcSCIArcAgentV1WaitForAgent_def)
qed


theorem zero_timeout_samples_once_witness:
  "arcSCIArcAgentV1WaitForAgent sampleOnce (fixedArc (Inr agentOne) (Inr [])) ''7d2c'' [] 0
       \<lparr>arc_remote = (), refreshes = 0\<rparr> =
     (Found agentOne, \<lparr>arc_remote = (), refreshes = 1\<rparr>) \<and>
   arcSCIArcAgentV1WaitForAgent sampleOnce (fixedArc (Inr agentOne) (Inr [])) [] ''linux'' 0
       \<lparr>arc_remote = (), refreshes = 0\<rparr> =
     (Failed (ErrorString ''No sci_arc_agent_v1 found''), \<lparr>arc_remote = (), refreshes = 1\<rparr>)"
  using zero_timeout_samples_once
          [of "fixedArc (Inr agentOne) (Inr [])" "''7d2c''" "[]"
              "\<lparr>arc_remote = (), refreshes = 0\<rparr>" sampleOnce]
  by (simp add: arcSCIArcAgentV1WaitForAgent_def arcSCIArcAgentV1GetAgent_def fixedArc_def)

text \<open>
  The claim C8 as it is written, for every wait, fails: the wait for a cluster has no
  branch for a zero timeout and hands it to the poller. On a remote whose cluster is
  running, one sample of the refresher has the target label \<open>Running\<close>; the wait with
  timeout 0 and a poller that gives up at once returns the timeout error, and no fetch
  has been issued.
\<close>

theorem zero_timeout_cluster_wait_counterexample:
  "fst (kubernikusKlusterV1GetPhase (fixedKlient emptyKluster []) ''Running'' ''k''
          \<lparr>remote = (), fetches = 0\<rparr>) =
     (Some emptyKluster, ''Running'', None) \<and>
   kubernikusWaitForClusterV1 expiringPoller (fixedKlient emptyKluster []) ''k'' ''Running''
       [''Pending'', ''Creating'', ''Upgrading''] 0 \<lparr>remote = (), fetches = 0\<rparr> =
     (Some (ErrorString ''timeout while waiting for state to become Running''),
      \<lparr>remote = (), fetches = 0\<rparr>)"
  by (simp add: kubernikusWaitForClusterV1_def expiringPoller_def
        kubernikusKlusterV1GetPhase_def inspectKluster_def fixedKlient_def emptyKluster_def)

text \<open>
  Claim C9. With an agent id, a fetch that fails with status 404 gives a pending sample
  (no object, no error, a label that is not \<open>active\<close>) when the timeout is positive, and
  an error when the timeout is zero. With a filter and no id, a listing with no agent
  gives a pending sample, a listing with more than one agent gives an error, and a
  listing with exactly one agent gives that agent with the label \<open>active\<close>.
\<close>

theorem agent_refresher_classification:
  "(agentID \<noteq> [] \<and> agents_Get arcClient agentID (arc_remote s) = (Inl err, r) \<and>
    ResponseCodeIs err StatusNotFound \<longrightarrow>
      (0 < timeout \<longrightarrow>
         (\<exists>label. fst (arcSCIArcAgentV1GetAgent arcClient agentID filter' timeout s) =
                     (None, label, None) \<and>
                   label = ''unable to retrieve '' @ agentID @ '' sci_arc_agent_v1: '' @ Error err \<and>
                   label \<noteq> ''active'')) \<and>
      (timeout = 0 \<longrightarrow>
         fst (arcSCIArcAgentV1GetAgent arcClient agentID filter' timeout s) =
           (None, [],
            Some (ErrorString
              (''unable to retrieve '' @ agentID @ '' sci_arc_agent_v1: '' @ Error err))))) \<and>
   (agentID = [] \<and> filter' \<noteq> [] \<and>
    agents_List_AllPages arcClient filter' (arc_remote s) = (Inr allPages, r) \<and>
    agents_ExtractAgents arcClient allPages = Inr allAgents \<longrightarrow>
      (length allAgents = 0 \<longrightarrow>
         fst (arcSCIArcAgentV1GetAgent arcClient agentID filter' timeout s) =
           (None, ''No sci_arc_agent_v1 found'', None)) \<and>
      (1 < length allAgents \<longrightarrow>
         fst (arcSCIArcAgentV1GetAgent arcClient agentID filter' timeout s) =
           (None, [],
            Some (ErrorString
              (''more than one sci_arc_agent_v1 found ('' @ itoa (length allAgents) @ '')'')))) \<and>
      (\<forall>a. allAgents = [a] \<longrightarrow>
         fst (arcSCIArcAgentV1GetAgent arcClient agentID filter' timeout s) =
           (Some a, ''active'', None)))"
  by (auto simp: arcSCIArcAgentV1GetAgent_def Let_def)

theorem agent_refresher_classification_witness:
  "ResponseCodeIs notFound StatusNotFound \<and>
   fst (arcSCIArcAgentV1GetAgent (fixedArc (Inl notFound) (Inr [])) ''7d2c'' [] Second
          \<lparr>arc_remote = (), refreshes = 0\<rparr>) =
     (None, ''unable to retrieve 7d2c sci_arc_agent_v1: Resource not found'', None) \<and>
   fst (arcSCIArcAgentV1GetAgent (fixedArc (Inl notFound) (Inr [])) ''7d2c'' [] 0
          \<lparr>arc_remote = (), refreshes = 0\<rparr>) =
     (None, [],
      Some (ErrorString ''unable to retrieve 7d2c sci_arc_agent_v1: Resource not found'')) \<and>
   fst (arcSCIArcAgentV1GetAgent (fixedArc (Inl notFound) (Inr [])) [] ''linux'' Second
          \<lparr>arc_remote = (), refreshes = 0\<rparr>) =
     (None, ''No sci_arc_agent_v1 found'', None) \<and>
   fst (arcSCIArcAgentV1GetAgent (fixedArc (Inl notFound) (Inr [agentOne, agentTwo])) []
          ''linux'' Second \<lparr>arc_remote = (), refreshes = 0\<rparr>) =
     (None, [], Some (ErrorString ''more than one sci_arc_agent_v1 found (2)'')) \<and>
   fst (arcSCIArcAgentV1GetAgent (fixedArc (Inl notFound) (Inr [agentOne])) []
          ''linux'' Second \<lparr>arc_remote = (), refreshes = 0\<rparr>) =
     (Some agentOne, ''active'', None)"
  using agent_refresher_classification
          [of "''7d2c''" "fixedArc (Inl notFound) (Inr [])" "\<lparr>arc_remote = (), refreshes = 0\<rparr>"
              notFound "()" Second "[]" "[]" "[]"]
        agent_refresher_classification
          [of "''7d2c''" "fixedArc (Inl notFound) (Inr [])" "\<lparr>arc_remote = (), refreshes = 0\<rparr>"
              notFound "()" 0 "[]" "[]" "[]"]
        agent_refresher_classification
          [of "[]" "fixedArc (Inl notFound) (Inr [])" "\<lparr>arc_remote = (), refreshes = 0\<rparr>"
              notFound "()" Second "''linux''" "[]" "[]"]
        agent_refresher_classification
          [of "[]" "fixedArc (Inl notFound) (Inr [agentOne, agentTwo])"
              "\<lparr>arc_remote = (), refreshes = 0\<rparr>"
              notFound "()" Second "''linux''" "[agentOne, agentTwo]" "[agentOne, agentTwo]"]
        agent_refresher_classification
          [of "[]" "fixedArc (Inl notFound) (Inr [agentOne])"
              "\<lparr>arc_remote = (), refreshes = 0\<rparr>"
              notFound "()" Second "''linux''" "[agentOne]" "[agentOne]"]
  by (simp add: fixedArc_def notFound_def StatusNotFound_def Second_def itoa.simps digitChar_def)


end
